theory Spec2Isabelle
  imports Main "HOL-Library.Word"
begin

section \<open>Exceptions\<close>

text \<open>
  The exceptions that can leave \<^verbatim>\<open>SCTE35_Parser.parse\<close>. The source defines
  \<^verbatim>\<open>SCTE35_SpliceInfoSectionException\<close> (raised with a message string) and catches
  nothing, so the exceptions of the \<^verbatim>\<open>bitstring\<close> library and of the interpreter
  propagate to the caller unchanged:
  \<^item> \<^verbatim>\<open>bitstring.ReadError\<close>: a \<^verbatim>\<open>read\<close> of more bits than remain;
  \<^item> \<^verbatim>\<open>ValueError\<close>: \<^verbatim>\<open>pos\<close> set past the end of the data;
  \<^item> \<^verbatim>\<open>AttributeError\<close>: an attribute assigned on a \<^verbatim>\<open>dict\<close>.
\<close>

datatype exn =
    SCTE35_SpliceInfoSectionException string
  | ReadError
  | ValueError
  | AttributeError

text \<open>The class of an exception: what an \<^verbatim>\<open>except\<close> clause of a caller can select on.\<close>

datatype exn_class =
    Class_SCTE35_SpliceInfoSectionException
  | Class_ReadError
  | Class_ValueError
  | Class_AttributeError

fun class_of :: "exn \<Rightarrow> exn_class" where
  "class_of (SCTE35_SpliceInfoSectionException msg) = Class_SCTE35_SpliceInfoSectionException"
| "class_of ReadError = Class_ReadError"
| "class_of ValueError = Class_ValueError"
| "class_of AttributeError = Class_AttributeError"

text \<open>Sequencing of two steps, the second skipped when the first raises.\<close>

definition exn_bind :: "exn + 'a \<Rightarrow> ('a \<Rightarrow> exn + 'b) \<Rightarrow> exn + 'b" where
  "exn_bind r f = (case r of Inl e \<Rightarrow> Inl e | Inr v \<Rightarrow> f v)"

section \<open>Formatting\<close>

text \<open>The \<^verbatim>\<open>%d\<close> conversion of a non-negative integer.\<close>

fun fmt_d :: "nat \<Rightarrow> string" where
  "fmt_d n = (if n < 10 then [''0123456789'' ! n]
              else fmt_d (n div 10) @ [''0123456789'' ! (n mod 10)])"

declare fmt_d.simps [simp del]

section \<open>The bit cursor\<close>

text \<open>
  \<^verbatim>\<open>bitstring.BitString\<close>: the bits of the buffer, most significant bit of each byte
  first, and the read position \<^verbatim>\<open>pos\<close>.
\<close>

record bitarray =
  bits :: "bool list"
  pos :: nat

definition bits_of_byte :: "8 word \<Rightarrow> bool list" where
  "bits_of_byte w = map (bit w) [7, 6, 5, 4, 3, 2, 1, 0]"

definition BitString :: "8 word list \<Rightarrow> bitarray" where
  "BitString input_bytes = \<lparr>bits = concat (map bits_of_byte input_bytes), pos = 0\<rparr>"

text \<open>Big-endian unsigned value of a bit list (\<^verbatim>\<open>uint\<close>).\<close>

definition uint_of_bits :: "bool list \<Rightarrow> nat" where
  "uint_of_bits bs = foldl (\<lambda>a b. 2 * a + (if b then 1 else 0)) 0 bs"

text \<open>Lower-case hexadecimal digits of a bit list whose length is a multiple of 4 (\<^verbatim>\<open>hex\<close>).\<close>

fun hex_of_bits :: "bool list \<Rightarrow> string" where
  "hex_of_bits (a # b # c # d # bs) =
     (''0123456789abcdef'' ! uint_of_bits [a, b, c, d]) # hex_of_bits bs"
| "hex_of_bits bs = []"

text \<open>Binary digits of a bit list (\<^verbatim>\<open>bin\<close>).\<close>

definition bin_of_bits :: "bool list \<Rightarrow> string" where
  "bin_of_bits bs = map (\<lambda>b. if b then CHR ''1'' else CHR ''0'') bs"

text \<open>
  \<^verbatim>\<open>read\<close> of \<open>n\<close> bits: raises \<^verbatim>\<open>ReadError\<close> when fewer than \<open>n\<close> bits remain,
  otherwise returns the bits and advances \<^verbatim>\<open>pos\<close> by \<open>n\<close>.
\<close>

definition read_bits :: "nat \<Rightarrow> bitarray \<Rightarrow> exn + (bool list \<times> bitarray)" where
  "read_bits n b =
     (if length (bits b) < pos b + n then Inl ReadError
      else Inr (take n (drop (pos b) (bits b)), b\<lparr>pos := pos b + n\<rparr>))"

definition read_uint :: "nat \<Rightarrow> bitarray \<Rightarrow> exn + (nat \<times> bitarray)" where
  "read_uint n b = exn_bind (read_bits n b) (\<lambda>(bs, b'). Inr (uint_of_bits bs, b'))"

text \<open>\<^verbatim>\<open>read("bool")\<close>: one bit, the bit at the position of the cursor.\<close>

definition read_bool :: "bitarray \<Rightarrow> exn + (bool \<times> bitarray)" where
  "read_bool b =
     (if length (bits b) < pos b + 1 then Inl ReadError
      else Inr (bits b ! pos b, b\<lparr>pos := pos b + 1\<rparr>))"

definition read_hex :: "nat \<Rightarrow> bitarray \<Rightarrow> exn + (string \<times> bitarray)" where
  "read_hex n b = exn_bind (read_bits n b) (\<lambda>(bs, b'). Inr (hex_of_bits bs, b'))"

definition read_bin :: "nat \<Rightarrow> bitarray \<Rightarrow> exn + (string \<times> bitarray)" where
  "read_bin n b = exn_bind (read_bits n b) (\<lambda>(bs, b'). Inr (bin_of_bits bs, b'))"

text \<open>
  \<^verbatim>\<open>bitarray.pos += n\<close>: the setter of \<^verbatim>\<open>pos\<close> raises \<^verbatim>\<open>ValueError\<close> when the new
  position is past the end of the data.
\<close>

definition skip :: "nat \<Rightarrow> bitarray \<Rightarrow> exn + bitarray" where
  "skip n b =
     (if length (bits b) < pos b + n then Inl ValueError
      else Inr (b\<lparr>pos := pos b + n\<rparr>))"

section \<open>Decoded structures\<close>

record SCTE35_SpliceInfoSection_header =
  section_syntax_indicator :: bool
  private_indicator :: bool
  section_length :: nat
  protocol_version :: nat
  encrypted_packet :: bool
  encryption_algorithm :: nat
  pts_adjustment :: nat
  cw_index :: nat
  tier :: string
  splice_command_length :: nat

text \<open>\<^verbatim>\<open>SCTE35_SpliceInfoSection.__init__\<close>: the check of \<^verbatim>\<open>table_id\<close>.\<close>

definition SCTE35_SpliceInfoSection_init :: "nat \<Rightarrow> exn + unit" where
  "SCTE35_SpliceInfoSection_init table_id =
     (if table_id \<noteq> 0xfc
      then Inl (SCTE35_SpliceInfoSectionException (fmt_d table_id @ '' valid. Should be 0xfc''))
      else Inr ())"

section \<open>The section header\<close>

text \<open>
  Lines 134 to 148 of \<^verbatim>\<open>parse\<close>: the fields from \<^verbatim>\<open>table_id\<close> to
  \<^verbatim>\<open>splice_command_length\<close>, in the order of the source.
\<close>

definition parse_section_header ::
  "bitarray \<Rightarrow> exn + (SCTE35_SpliceInfoSection_header \<times> bitarray)" where
  "parse_section_header input_bitarray =
     exn_bind (read_uint 8 input_bitarray) (\<lambda>(table_id, b).
     exn_bind (SCTE35_SpliceInfoSection_init table_id) (\<lambda>_.
     exn_bind (read_bool b) (\<lambda>(v_section_syntax_indicator, b).
     exn_bind (read_bool b) (\<lambda>(v_private, b).
     exn_bind (skip 2 b) (\<lambda>b.
     exn_bind (read_uint 12 b) (\<lambda>(v_section_length, b).
     exn_bind (read_uint 8 b) (\<lambda>(v_protocol_version, b).
     exn_bind (read_bool b) (\<lambda>(v_encrypted_packet, b).
     exn_bind (read_uint 6 b) (\<lambda>(v_encryption_algorithm, b).
     exn_bind (read_uint 33 b) (\<lambda>(v_pts_adjustment, b).
     exn_bind (read_uint 8 b) (\<lambda>(v_cw_index, b).
     exn_bind (read_hex 12 b) (\<lambda>(v_tier, b).
     exn_bind (read_uint 12 b) (\<lambda>(v_splice_command_length, b).
     Inr (\<lparr>section_syntax_indicator = v_section_syntax_indicator,
           private_indicator = v_private,
           section_length = v_section_length,
           protocol_version = v_protocol_version,
           encrypted_packet = v_encrypted_packet,
           encryption_algorithm = v_encryption_algorithm,
           pts_adjustment = v_pts_adjustment,
           cw_index = v_cw_index,
           tier = v_tier,
           splice_command_length = v_splice_command_length\<rparr>, b))))))))))))))"

section \<open>Splice commands\<close>

text \<open>\<^verbatim>\<open>MPEG_Time\<close> is a \<^verbatim>\<open>long\<close>: a tick count of the 90 kHz clock.\<close>

type_synonym MPEG_Time = nat

record Splice_Time =
  time_specified_flag :: bool
  pts_time :: "MPEG_Time option"

record BreakDuration =
  auto_return :: bool
  duration :: MPEG_Time

record Component =
  tag :: nat
  component_splice_time :: "Splice_Time option"

text \<open>
  \<^verbatim>\<open>SCTE35_SpliceInsert\<close> as \<^verbatim>\<open>__parse_splice_insert\<close> returns it. The attributes
  \<^verbatim>\<open>splice_time\<close>, \<^verbatim>\<open>component_count\<close> and \<^verbatim>\<open>break_duration\<close> are assigned under
  a condition only; an attribute never assigned is \<open>None\<close> here.
\<close>

record SCTE35_SpliceInsert =
  splice_id :: nat
  components :: "Component list"
  splice_event_cancel_indicator :: bool
  out_of_network_indicator :: bool
  program_splice_flag :: bool
  duration_flag :: bool
  splice_immediate_flag :: bool
  splice_time :: "Splice_Time option"
  component_count :: "nat option"
  break_duration :: "BreakDuration option"
  unique_program_id :: nat
  avail_num :: nat
  avails_expected :: nat

record SCTE35_TimeSignal =
  signal_splice_time :: Splice_Time

definition parse_splice_time :: "bitarray \<Rightarrow> exn + (Splice_Time \<times> bitarray)" where
  "parse_splice_time bitarray =
     exn_bind (read_bool bitarray) (\<lambda>(v_time_specified_flag, b).
     if v_time_specified_flag then
       exn_bind (skip 6 b) (\<lambda>b.
       exn_bind (read_uint 33 b) (\<lambda>(v_pts_time, b).
       Inr (\<lparr>time_specified_flag = v_time_specified_flag, pts_time = Some v_pts_time\<rparr>, b)))
     else
       exn_bind (skip 7 b) (\<lambda>b.
       Inr (\<lparr>time_specified_flag = v_time_specified_flag, pts_time = None\<rparr>, b)))"

definition parse_break_duration :: "bitarray \<Rightarrow> exn + (BreakDuration \<times> bitarray)" where
  "parse_break_duration bitarray =
     exn_bind (read_bool bitarray) (\<lambda>(v_auto_return, b).
     exn_bind (skip 6 b) (\<lambda>b.
     exn_bind (read_uint 33 b) (\<lambda>(v_duration, b).
     Inr (\<lparr>auto_return = v_auto_return, duration = v_duration\<rparr>, b))))"

definition parse_time_signal :: "bitarray \<Rightarrow> exn + (SCTE35_TimeSignal \<times> bitarray)" where
  "parse_time_signal bitarray =
     exn_bind (parse_splice_time bitarray) (\<lambda>(v_splice_time, b).
     Inr (\<lparr>signal_splice_time = v_splice_time\<rparr>, b))"

text \<open>
  The loop \<^verbatim>\<open>for i in xrange(0, ssi.component_count)\<close> of \<^verbatim>\<open>__parse_splice_insert\<close>:
  the first argument counts the iterations left, the list is \<^verbatim>\<open>ssi.components\<close>.
\<close>

fun parse_splice_insert_components ::
  "nat \<Rightarrow> bool \<Rightarrow> Component list \<Rightarrow> bitarray \<Rightarrow> exn + (Component list \<times> bitarray)" where
  "parse_splice_insert_components 0 immediate cs b = Inr (cs, b)"
| "parse_splice_insert_components (Suc n) immediate cs b =
     exn_bind (read_uint 8 b) (\<lambda>(v_tag, b).
     exn_bind (if immediate
               then exn_bind (parse_splice_time b) (\<lambda>(st, b). Inr (Some st, b))
               else Inr (None, b)) (\<lambda>(v_splice_time, b).
     parse_splice_insert_components n immediate
       (cs @ [\<lparr>tag = v_tag, component_splice_time = v_splice_time\<rparr>]) b))"

text \<open>
  \<^verbatim>\<open>__parse_splice_insert\<close>. The \<^verbatim>\<open>return ssi\<close> of the source is the last statement
  of the body of \<^verbatim>\<open>if not ssi.splice_event_cancel_indicator\<close>; when the indicator is
  set the function reaches its end and returns \<^verbatim>\<open>None\<close>.
\<close>

definition parse_splice_insert ::
  "bitarray \<Rightarrow> exn + (SCTE35_SpliceInsert option \<times> bitarray)" where
  "parse_splice_insert bitarray =
     exn_bind (read_uint 32 bitarray) (\<lambda>(splice_event_id, b).
     exn_bind (read_bool b) (\<lambda>(v_splice_event_cancel_indicator, b).
     exn_bind (skip 7 b) (\<lambda>b.
     if \<not> v_splice_event_cancel_indicator then
       exn_bind (read_bool b) (\<lambda>(v_out_of_network_indicator, b).
       exn_bind (read_bool b) (\<lambda>(v_program_splice_flag, b).
       exn_bind (read_bool b) (\<lambda>(v_duration_flag, b).
       exn_bind (read_bool b) (\<lambda>(v_splice_immediate_flag, b).
       exn_bind (skip 4 b) (\<lambda>b.
       exn_bind (if v_program_splice_flag \<and> \<not> v_splice_immediate_flag
                 then exn_bind (parse_splice_time b) (\<lambda>(st, b). Inr (Some st, b))
                 else Inr (None, b)) (\<lambda>(v_splice_time, b).
       exn_bind (if \<not> v_program_splice_flag
                 then exn_bind (read_uint 8 b) (\<lambda>(n, b).
                      exn_bind (parse_splice_insert_components n v_splice_immediate_flag [] b)
                        (\<lambda>(cs, b). Inr ((Some n, cs), b)))
                 else Inr ((None, []), b)) (\<lambda>((v_component_count, v_components), b).
       exn_bind (if v_duration_flag
                 then exn_bind (parse_break_duration b) (\<lambda>(bd, b). Inr (Some bd, b))
                 else Inr (None, b)) (\<lambda>(v_break_duration, b).
       exn_bind (read_uint 16 b) (\<lambda>(v_unique_program_id, b).
       exn_bind (read_uint 8 b) (\<lambda>(v_avail_num, b).
       exn_bind (read_uint 8 b) (\<lambda>(v_avails_expected, b).
       Inr (Some \<lparr>splice_id = splice_event_id,
                  components = v_components,
                  splice_event_cancel_indicator = v_splice_event_cancel_indicator,
                  out_of_network_indicator = v_out_of_network_indicator,
                  program_splice_flag = v_program_splice_flag,
                  duration_flag = v_duration_flag,
                  splice_immediate_flag = v_splice_immediate_flag,
                  splice_time = v_splice_time,
                  component_count = v_component_count,
                  break_duration = v_break_duration,
                  unique_program_id = v_unique_program_id,
                  avail_num = v_avail_num,
                  avails_expected = v_avails_expected\<rparr>, b))))))))))))
     else Inr (None, b))))"

section \<open>Splice descriptors\<close>

text \<open>
  \<^verbatim>\<open>SCTE35_SegmentationDescriptor\<close>: every attribute is \<^verbatim>\<open>None\<close> after \<^verbatim>\<open>__init__\<close>.
  An element of \<^verbatim>\<open>components\<close> is a \<^verbatim>\<open>dict\<close>, here a list of keys and values.
\<close>

type_synonym dict = "(string \<times> nat) list"

record SCTE35_SegmentationDescriptor =
  descriptor_length :: "nat option"
  splice_descriptor_tag :: "nat option"
  descriptor_identifier :: "string option"
  segmentation_event_id :: "nat option"
  segmentation_event_cancel_indicator :: "bool option"
  program_segmentation_flag :: "bool option"
  segmentation_duration_flag :: "bool option"
  delivery_not_restricted_flag :: "bool option"
  web_delivery_allowed_flag :: "bool option"
  no_regional_blackout_flag :: "bool option"
  archive_allowed_flag :: "bool option"
  device_restrictions :: "string option"
  segmentation_component_count :: "nat option"
  segmentation_components :: "dict list option"
  segmentation_duration :: "nat option"
  segmentation_upid_type :: "string option"
  segmentation_upid_length :: "nat option"
  segmentation_upid :: "string option"
  segmentation_type_id :: "nat option"
  segment_num :: "nat option"
  segments_expected :: "nat option"
  sub_segment_num :: "nat option"
  sub_segments_expected :: "nat option"

definition SCTE35_SegmentationDescriptor_init :: SCTE35_SegmentationDescriptor where
  "SCTE35_SegmentationDescriptor_init =
     \<lparr>descriptor_length = None, splice_descriptor_tag = None, descriptor_identifier = None,
      segmentation_event_id = None, segmentation_event_cancel_indicator = None,
      program_segmentation_flag = None, segmentation_duration_flag = None,
      delivery_not_restricted_flag = None, web_delivery_allowed_flag = None,
      no_regional_blackout_flag = None, archive_allowed_flag = None,
      device_restrictions = None, segmentation_component_count = None,
      segmentation_components = None, segmentation_duration = None,
      segmentation_upid_type = None, segmentation_upid_length = None,
      segmentation_upid = None, segmentation_type_id = None, segment_num = None,
      segments_expected = None, sub_segment_num = None, sub_segments_expected = None\<rparr>"

text \<open>
  The body of \<^verbatim>\<open>for i in range(splice_desc.component_count)\<close>. The source binds
  \<^verbatim>\<open>component = {}\<close> and then assigns \<^verbatim>\<open>component.component_tag\<close>: the right-hand
  side is read from the stream, and the assignment of an attribute on a \<^verbatim>\<open>dict\<close>
  raises \<^verbatim>\<open>AttributeError\<close>. The statements after it are never reached.
\<close>

definition parse_segmentation_component :: "bitarray \<Rightarrow> exn + (dict \<times> bitarray)" where
  "parse_segmentation_component bitarray =
     exn_bind (read_uint 8 bitarray) (\<lambda>(v_component_tag, b). Inl AttributeError)"

fun parse_segmentation_components ::
  "nat \<Rightarrow> dict list \<Rightarrow> int \<Rightarrow> bitarray \<Rightarrow> exn + (dict list \<times> int \<times> bitarray)" where
  "parse_segmentation_components 0 cs len b = Inr (cs, len, b)"
| "parse_segmentation_components (Suc n) cs len b =
     exn_bind (parse_segmentation_component b) (\<lambda>(component, b).
     parse_segmentation_components n (cs @ [component]) (len - 6) b)"

text \<open>
  The branch \<^verbatim>\<open>splice_descriptor_tag == 0x02\<close> of \<^verbatim>\<open>__parse_splice_descriptors\<close>
  (lines 250 to 298). The integer is the local \<^verbatim>\<open>length\<close>, the bytes the loop still
  expects.
\<close>

definition parse_segmentation_descriptor ::
  "bitarray \<Rightarrow> int \<Rightarrow> exn + (SCTE35_SegmentationDescriptor \<times> int \<times> bitarray)" where
  "parse_segmentation_descriptor bitarray len =
     (let splice_desc = SCTE35_SegmentationDescriptor_init in
     exn_bind (read_uint 32 bitarray) (\<lambda>(v, b).
     let splice_desc = splice_desc\<lparr>segmentation_event_id := Some v\<rparr> in
     exn_bind (read_bool b) (\<lambda>(cancel, b).
     let splice_desc = splice_desc\<lparr>segmentation_event_cancel_indicator := Some cancel\<rparr> in
     exn_bind (skip 7 b) (\<lambda>b.
     let len = len - 5 in
     if \<not> cancel then
       exn_bind (read_bool b) (\<lambda>(v_program_segmentation_flag, b).
       exn_bind (read_bool b) (\<lambda>(v_segmentation_duration_flag, b).
       exn_bind (read_bool b) (\<lambda>(v_delivery_not_restricted_flag, b).
       let splice_desc = splice_desc\<lparr>
             program_segmentation_flag := Some v_program_segmentation_flag,
             segmentation_duration_flag := Some v_segmentation_duration_flag,
             delivery_not_restricted_flag := Some v_delivery_not_restricted_flag\<rparr> in
       exn_bind (if \<not> v_delivery_not_restricted_flag then
                   exn_bind (read_bool b) (\<lambda>(v_web, b).
                   exn_bind (read_bool b) (\<lambda>(v_blackout, b).
                   exn_bind (read_bool b) (\<lambda>(v_archive, b).
                   exn_bind (read_bin 2 b) (\<lambda>(v_device, b).
                   Inr (splice_desc\<lparr>web_delivery_allowed_flag := Some v_web,
                                     no_regional_blackout_flag := Some v_blackout,
                                     archive_allowed_flag := Some v_archive,
                                     device_restrictions := Some v_device\<rparr>, b)))))
                 else exn_bind (skip 5 b) (\<lambda>b. Inr (splice_desc, b))) (\<lambda>(splice_desc, b).
       let len = len - 1 in
       exn_bind (if \<not> v_program_segmentation_flag then
                   exn_bind (read_uint 8 b) (\<lambda>(n, b).
                   exn_bind (parse_segmentation_components n [] (len - 1) b) (\<lambda>(cs, len, b).
                   Inr (splice_desc\<lparr>segmentation_component_count := Some n,
                                     segmentation_components := Some cs\<rparr>, len, b)))
                 else Inr (splice_desc, len, b)) (\<lambda>(splice_desc, len, b).
       exn_bind (if v_segmentation_duration_flag then
                   exn_bind (read_uint 40 b) (\<lambda>(v, b).
                   Inr (splice_desc\<lparr>segmentation_duration := Some v\<rparr>, len - 5, b))
                 else Inr (splice_desc, len, b)) (\<lambda>(splice_desc, len, b).
       exn_bind (read_hex 8 b) (\<lambda>(v_upid_type, b).
       exn_bind (read_uint 8 b) (\<lambda>(v_upid_length, b).
       exn_bind (read_hex (v_upid_length * 8) b) (\<lambda>(v_upid, b).
       let len = len - (int v_upid_length + 2) in
       exn_bind (read_uint 8 b) (\<lambda>(v_type_id, b).
       exn_bind (read_uint 8 b) (\<lambda>(v_segment_num, b).
       exn_bind (read_uint 8 b) (\<lambda>(v_segments_expected, b).
       let len = len - 3;
           splice_desc = splice_desc\<lparr>
             segmentation_upid_type := Some v_upid_type,
             segmentation_upid_length := Some v_upid_length,
             segmentation_upid := Some v_upid,
             segmentation_type_id := Some v_type_id,
             segment_num := Some v_segment_num,
             segments_expected := Some v_segments_expected\<rparr> in
       if v_type_id = 0x34 \<or> v_type_id = 0x36 then
         exn_bind (read_uint 8 b) (\<lambda>(v_sub_segment_num, b).
         exn_bind (read_uint 8 b) (\<lambda>(v_sub_segments_expected, b).
         Inr (splice_desc\<lparr>sub_segment_num := Some v_sub_segment_num,
                           sub_segments_expected := Some v_sub_segments_expected\<rparr>,
              len - 2, b)))
       else Inr (splice_desc, len, b)))))))))))))
     else Inr (splice_desc, len, b)))))"

text \<open>
  One iteration of \<^verbatim>\<open>while length > 0\<close> (lines 236 to 310): the common fields, the
  dispatch on the tag, and the descriptor appended to \<^verbatim>\<open>results\<close>.
\<close>

definition parse_splice_descriptor ::
  "bitarray \<Rightarrow> int \<Rightarrow> exn + (SCTE35_SegmentationDescriptor \<times> int \<times> bitarray)" where
  "parse_splice_descriptor bitarray len =
     exn_bind (read_uint 8 bitarray) (\<lambda>(v_splice_descriptor_tag, b).
     exn_bind (read_uint 8 b) (\<lambda>(v_descriptor_length, b).
     exn_bind (read_hex 32 b) (\<lambda>(v_identifier, b).
     let len = len - 6 in
     exn_bind
       (if v_splice_descriptor_tag = 0x00 then
          Inl (SCTE35_SpliceInfoSectionException
                 (''avail_descriptor ('' @ fmt_d v_splice_descriptor_tag @ '') not yet supported''))
        else if v_splice_descriptor_tag = 0x01 then
          Inl (SCTE35_SpliceInfoSectionException
                 (''DTMF_descriptor ('' @ fmt_d v_splice_descriptor_tag @ '') not yet supported''))
        else if v_splice_descriptor_tag = 0x02 then
          parse_segmentation_descriptor b len
        else if v_splice_descriptor_tag = 0x03 then
          Inl (SCTE35_SpliceInfoSectionException
                 (''time_descriptor ('' @ fmt_d v_splice_descriptor_tag @ '') not yet supported''))
        else
          Inl (SCTE35_SpliceInfoSectionException
                 (''unknown splice_descriptor tag ('' @ fmt_d v_splice_descriptor_tag @ '')'')))
       (\<lambda>(splice_desc, len, b).
     Inr (splice_desc\<lparr>splice_descriptor_tag := Some v_splice_descriptor_tag,
                       descriptor_length := Some v_descriptor_length,
                       descriptor_identifier := Some v_identifier\<rparr>, len, b)))))"

text \<open>
  Each iteration that returns lowers \<^verbatim>\<open>length\<close> by at least 11: the loop ends.
\<close>

lemma exn_bind_InrE:
  assumes "exn_bind r f = Inr y"
  obtains v where "r = Inr v" and "f v = Inr y"
  using assms by (cases r) (auto simp: exn_bind_def)

lemma parse_segmentation_components_Inr:
  "parse_segmentation_components n cs len b = Inr (cs', len', b') \<Longrightarrow> n = 0 \<and> len' = len"
  by (cases n) (auto simp: parse_segmentation_component_def exn_bind_def split: sum.splits)

lemma parse_segmentation_descriptor_len:
  assumes "parse_segmentation_descriptor b len = Inr (d, len', b')"
  shows "len' \<le> len - 5"
  using assms unfolding parse_segmentation_descriptor_def Let_def
  by (auto split: if_splits prod.splits elim!: exn_bind_InrE
        dest!: parse_segmentation_components_Inr)

lemma parse_splice_descriptor_len:
  assumes "parse_splice_descriptor b len = Inr (d, len', b')"
  shows "len' \<le> len - 11"
  using assms unfolding parse_splice_descriptor_def Let_def
  by (auto split: if_splits prod.splits elim!: exn_bind_InrE
        dest!: parse_segmentation_descriptor_len)

text \<open>
  \<^verbatim>\<open>__parse_splice_descriptors\<close>: the loop \<^verbatim>\<open>while length > 0\<close>. The state of the
  loop is the cursor, the local \<^verbatim>\<open>length\<close> and the list \<^verbatim>\<open>results\<close>; the loop
  function returns all three, so that the value of \<^verbatim>\<open>length\<close> at the exit can be
  stated.
\<close>

function parse_splice_descriptors_loop ::
  "bitarray \<Rightarrow> int \<Rightarrow> SCTE35_SegmentationDescriptor list
     \<Rightarrow> exn + (SCTE35_SegmentationDescriptor list \<times> int \<times> bitarray)" where
  "parse_splice_descriptors_loop bitarray len results =
     (if len > 0 then
        (case parse_splice_descriptor bitarray len of
           Inl e \<Rightarrow> Inl e
         | Inr (splice_desc, len', b) \<Rightarrow>
             parse_splice_descriptors_loop b len' (results @ [splice_desc]))
      else Inr (results, len, bitarray))"
  by pat_completeness auto
termination
  by (relation "measure (\<lambda>(bitarray, len, results). nat len)")
     (auto dest!: parse_splice_descriptor_len)

declare parse_splice_descriptors_loop.simps [simp del]

definition parse_splice_descriptors ::
  "bitarray \<Rightarrow> int \<Rightarrow> exn + (SCTE35_SegmentationDescriptor list \<times> bitarray)" where
  "parse_splice_descriptors bitarray len =
     exn_bind (parse_splice_descriptors_loop bitarray len []) (\<lambda>(results, len', b).
     Inr (results, b))"

section \<open>The parser\<close>

text \<open>
  The value of \<^verbatim>\<open>splice_info_section.splice_command\<close> is what the command parser
  returned: an object of one of the two classes, or \<^verbatim>\<open>None\<close>.
\<close>

datatype splice_command =
    SpliceInsert SCTE35_SpliceInsert
  | TimeSignal SCTE35_TimeSignal

record SCTE35_SpliceInfoSection = SCTE35_SpliceInfoSection_header +
  splice_command_type :: nat
  splice_command :: "splice_command option"
  splice_descriptor_loop_length :: nat
  splice_descriptors :: "SCTE35_SegmentationDescriptor list option"

text \<open>
  Lines 150 to 158 of \<^verbatim>\<open>parse\<close>: the command type and the dispatch on it.
\<close>

definition parse_splice_command ::
  "bitarray \<Rightarrow> exn + ((nat \<times> splice_command option) \<times> bitarray)" where
  "parse_splice_command bitarray =
     exn_bind (read_uint 8 bitarray) (\<lambda>(v_splice_command_type, b).
     if v_splice_command_type = 5 then
       exn_bind (parse_splice_insert b) (\<lambda>(ssi, b).
       Inr ((v_splice_command_type, map_option SpliceInsert ssi), b))
     else if v_splice_command_type = 6 then
       exn_bind (parse_time_signal b) (\<lambda>(sts, b).
       Inr ((v_splice_command_type, Some (TimeSignal sts)), b))
     else
       Inl (SCTE35_SpliceInfoSectionException
              (''splice_command_type: '' @ fmt_d v_splice_command_type @ '' not yet supported'')))"

text \<open>
  \<^verbatim>\<open>parse\<close> on the cursor: the header, the command, the descriptor loop. The cursor
  is returned with the section, so that its final position can be stated.
\<close>

definition parse_bitarray :: "bitarray \<Rightarrow> exn + (SCTE35_SpliceInfoSection \<times> bitarray)" where
  "parse_bitarray input_bitarray =
     exn_bind (parse_section_header input_bitarray) (\<lambda>(header, b).
     exn_bind (parse_splice_command b) (\<lambda>((v_splice_command_type, v_splice_command), b).
     exn_bind (read_uint 16 b) (\<lambda>(v_splice_descriptor_loop_length, b).
     exn_bind (if v_splice_descriptor_loop_length > 0
               then exn_bind (parse_splice_descriptors b (int v_splice_descriptor_loop_length))
                      (\<lambda>(ds, b). Inr (Some ds, b))
               else Inr (None, b)) (\<lambda>(v_splice_descriptors, b).
     Inr (SCTE35_SpliceInfoSection_header.extend header
            (SCTE35_SpliceInfoSection.fields v_splice_command_type v_splice_command
               v_splice_descriptor_loop_length v_splice_descriptors), b)))))"

text \<open>\<^verbatim>\<open>SCTE35_Parser.parse\<close>.\<close>

definition parse :: "8 word list \<Rightarrow> exn + SCTE35_SpliceInfoSection" where
  "parse input_bytes =
     exn_bind (parse_bitarray (BitString input_bytes)) (\<lambda>(splice_info_section, b).
     Inr splice_info_section)"

section \<open>Example buffers\<close>

text \<open>
  A section header alone: \<^verbatim>\<open>table_id\<close> 0xFC, \<^verbatim>\<open>section_length\<close> 17, \<^verbatim>\<open>tier\<close> 0xfff,
  \<^verbatim>\<open>splice_command_length\<close> 5.
\<close>

definition header_example :: "8 word list" where
  "header_example =
     [0xFC, 0x30, 0x11, 0x00, 0x00, 0x00, 0x00, 0x00, 0x00, 0x00, 0xFF, 0xF0, 0x05]"

definition header_example_decoded :: SCTE35_SpliceInfoSection_header where
  "header_example_decoded =
     \<lparr>section_syntax_indicator = False, private_indicator = False, section_length = 17,
      protocol_version = 0, encrypted_packet = False, encryption_algorithm = 0,
      pts_adjustment = 0, cw_index = 0, tier = ''fff'', splice_command_length = 5\<rparr>"

text \<open>
  Six bytes: a splice time with the flag set and \<^verbatim>\<open>pts_time\<close> 12345, then one with the
  flag clear.
\<close>

definition splice_time_example :: bitarray where
  "splice_time_example = BitString [0xFE, 0x00, 0x00, 0x30, 0x39, 0x7F]"

text \<open>
  A splice insert with \<^verbatim>\<open>splice_event_cancel_indicator\<close> set, and an empty descriptor
  loop: the header, command type 5, event id 1, the indicator with its 7 reserved bits,
  loop length 0.
\<close>

definition cancelled_insert_example :: "8 word list" where
  "cancelled_insert_example =
     [0xFC, 0x30, 0x11, 0x00, 0x00, 0x00, 0x00, 0x00, 0x00, 0x00, 0xFF, 0xF0, 0x05,
      0x05, 0x00, 0x00, 0x00, 0x01, 0xFF, 0x00, 0x00]"

definition cancelled_insert_decoded :: SCTE35_SpliceInfoSection where
  "cancelled_insert_decoded =
     \<lparr>section_syntax_indicator = False, private_indicator = False, section_length = 17,
      protocol_version = 0, encrypted_packet = False, encryption_algorithm = 0,
      pts_adjustment = 0, cw_index = 0, tier = ''fff'', splice_command_length = 5,
      splice_command_type = 5, splice_command = None,
      splice_descriptor_loop_length = 0, splice_descriptors = None\<rparr>"






section \<open>Facts about the cursor\<close>

lemma read_uint_Inr:
  "read_uint n b = Inr (v, b') \<longleftrightarrow>
     pos b + n \<le> length (bits b) \<and> v = uint_of_bits (take n (drop (pos b) (bits b)))
       \<and> b' = b\<lparr>pos := pos b + n\<rparr>"
  by (auto simp: read_uint_def read_bits_def exn_bind_def)

lemma read_bool_Inr:
  "read_bool b = Inr (v, b') \<longleftrightarrow>
     pos b + 1 \<le> length (bits b) \<and> v = bits b ! pos b \<and> b' = b\<lparr>pos := pos b + 1\<rparr>"
  by (auto simp: read_bool_def)

lemma read_hex_Inr:
  "read_hex n b = Inr (v, b') \<longleftrightarrow>
     pos b + n \<le> length (bits b) \<and> v = hex_of_bits (take n (drop (pos b) (bits b)))
       \<and> b' = b\<lparr>pos := pos b + n\<rparr>"
  by (auto simp: read_hex_def read_bits_def exn_bind_def)

lemma read_bin_Inr:
  "read_bin n b = Inr (v, b') \<longleftrightarrow>
     pos b + n \<le> length (bits b) \<and> v = bin_of_bits (take n (drop (pos b) (bits b)))
       \<and> b' = b\<lparr>pos := pos b + n\<rparr>"
  by (auto simp: read_bin_def read_bits_def exn_bind_def)

lemma skip_Inr:
  "skip n b = Inr b' \<longleftrightarrow> pos b + n \<le> length (bits b) \<and> b' = b\<lparr>pos := pos b + n\<rparr>"
  by (auto simp: skip_def)

lemmas cursor_Inr = read_uint_Inr read_bool_Inr read_hex_Inr read_bin_Inr skip_Inr

text \<open>
  One step of a sequence that returns: the read succeeded, and the rest ran on its
  value and the advanced cursor.
\<close>

lemma bind_read_uint_Inr:
  "exn_bind (read_uint n b) f = Inr y \<longleftrightarrow>
     pos b + n \<le> length (bits b)
     \<and> f (uint_of_bits (take n (drop (pos b) (bits b))), b\<lparr>pos := pos b + n\<rparr>) = Inr y"
  by (auto simp: read_uint_def read_bits_def exn_bind_def)

lemma bind_read_bool_Inr:
  "exn_bind (read_bool b) f = Inr y \<longleftrightarrow>
     pos b + 1 \<le> length (bits b) \<and> f (bits b ! pos b, b\<lparr>pos := pos b + 1\<rparr>) = Inr y"
  by (auto simp: read_bool_def exn_bind_def)

lemma bind_read_hex_Inr:
  "exn_bind (read_hex n b) f = Inr y \<longleftrightarrow>
     pos b + n \<le> length (bits b)
     \<and> f (hex_of_bits (take n (drop (pos b) (bits b))), b\<lparr>pos := pos b + n\<rparr>) = Inr y"
  by (auto simp: read_hex_def read_bits_def exn_bind_def)

lemma bind_read_bin_Inr:
  "exn_bind (read_bin n b) f = Inr y \<longleftrightarrow>
     pos b + n \<le> length (bits b)
     \<and> f (bin_of_bits (take n (drop (pos b) (bits b))), b\<lparr>pos := pos b + n\<rparr>) = Inr y"
  by (auto simp: read_bin_def read_bits_def exn_bind_def)

lemma bind_skip_Inr:
  "exn_bind (skip n b) f = Inr y \<longleftrightarrow>
     pos b + n \<le> length (bits b) \<and> f (b\<lparr>pos := pos b + n\<rparr>) = Inr y"
  by (auto simp: skip_def exn_bind_def)

lemma exn_bind_Inr [simp]: "exn_bind (Inr v) f = f v"
  by (simp add: exn_bind_def)

lemma exn_bind_Inl [simp]: "exn_bind (Inl e) f = Inl e"
  by (simp add: exn_bind_def)

lemma exn_bind_if:
  "exn_bind (if c then x else y) f = (if c then exn_bind x f else exn_bind y f)"
  by simp


lemmas bind_Inr = bind_read_uint_Inr bind_read_bool_Inr bind_read_hex_Inr bind_read_bin_Inr
  bind_skip_Inr

text \<open>The unsigned value of the eight bits of a byte is the byte.\<close>

lemma foldl_uint_horner:
  "foldl (\<lambda>a b. 2 * a + (if b then 1 else 0)) a bs =
     horner_sum of_bool (2::nat) (rev bs) + a * 2 ^ length bs"
  by (induction bs arbitrary: a) (simp_all add: horner_sum_append algebra_simps)

lemma uint_of_bits_horner: "uint_of_bits bs = horner_sum of_bool 2 (rev bs)"
  by (simp add: uint_of_bits_def foldl_uint_horner)

lemma upt_8: "[0..<8] = [0, 1, 2, 3, 4, 5, 6, 7::nat]"
  by code_simp

lemma uint_of_bits_bits_of_byte: "uint_of_bits (bits_of_byte x) = unat x"
proof -
  have "rev (bits_of_byte x) = map (bit (unat x)) [0..<8]"
    by (simp add: bits_of_byte_def upt_8 bit_unsigned_iff)
  then have "uint_of_bits (bits_of_byte x) = horner_sum of_bool 2 (map (bit (unat x)) [0..<8])"
    by (simp add: uint_of_bits_horner)
  also have "\<dots> = take_bit 8 (unat x)"
    by (rule horner_sum_bit_eq_take_bit)
  also have "\<dots> = unat x"
    by (rule take_bit_nat_eq_self) (use unsigned_less [of x, where 'a = nat] in simp)
  finally show ?thesis .
qed

section \<open>The section header: field order and width\<close>

lemma header_example_run:
  "parse_section_header (BitString header_example) =
     Inr (header_example_decoded, (BitString header_example)\<lparr>pos := 104\<rparr>)"
  by code_simp

text \<open>
  Claim C2, as amended. Whenever the header part of \<^verbatim>\<open>parse\<close> succeeds, the fields were
  read in the order and with the widths 8, 1, 1, 2 (skipped), 12, 8, 1, 6, 33, 8, 12, 12:
  the first eight bits are 0xFC and every field of the result is the value of its slice
  of the buffer. These widths add up to 104, so the cursor stands 104 bits after its
  start (not 97), on the same bits.
\<close>

theorem parse_section_header_layout:
  assumes "parse_section_header b = Inr (h, b')"
  shows "uint_of_bits (take 8 (drop (pos b) (bits b))) = 0xfc
       \<and> section_syntax_indicator h = bits b ! (pos b + 8)
       \<and> private_indicator h = bits b ! (pos b + 8 + 1)
       \<and> section_length h = uint_of_bits (take 12 (drop (pos b + 8 + 1 + 1 + 2) (bits b)))
       \<and> protocol_version h = uint_of_bits (take 8 (drop (pos b + 8 + 1 + 1 + 2 + 12) (bits b)))
       \<and> encrypted_packet h = bits b ! (pos b + 8 + 1 + 1 + 2 + 12 + 8)
       \<and> encryption_algorithm h =
           uint_of_bits (take 6 (drop (pos b + 8 + 1 + 1 + 2 + 12 + 8 + 1) (bits b)))
       \<and> pts_adjustment h =
           uint_of_bits (take 33 (drop (pos b + 8 + 1 + 1 + 2 + 12 + 8 + 1 + 6) (bits b)))
       \<and> cw_index h =
           uint_of_bits (take 8 (drop (pos b + 8 + 1 + 1 + 2 + 12 + 8 + 1 + 6 + 33) (bits b)))
       \<and> tier h =
           hex_of_bits (take 12 (drop (pos b + 8 + 1 + 1 + 2 + 12 + 8 + 1 + 6 + 33 + 8) (bits b)))
       \<and> splice_command_length h =
           uint_of_bits
             (take 12 (drop (pos b + 8 + 1 + 1 + 2 + 12 + 8 + 1 + 6 + 33 + 8 + 12) (bits b)))
       \<and> pos b' = pos b + 104 \<and> bits b' = bits b"
  using assms unfolding parse_section_header_def SCTE35_SpliceInfoSection_init_def
  by (auto simp: bind_Inr exn_bind_if split: if_splits)

theorem parse_section_header_layout_witness:
  "parse_section_header (BitString header_example) =
     Inr (header_example_decoded, (BitString header_example)\<lparr>pos := 104\<rparr>)
   \<and> section_length header_example_decoded =
       uint_of_bits
         (take 12 (drop (pos (BitString header_example) + 8 + 1 + 1 + 2)
            (bits (BitString header_example))))
   \<and> pos ((BitString header_example)\<lparr>pos := 104\<rparr>) = pos (BitString header_example) + 104"
  using parse_section_header_layout [OF header_example_run] header_example_run
  by simp

text \<open>
  Claim C2 as stated fails: on \<open>header_example\<close> the header is read and the cursor
  stands at bit 104, not at bit 97.
\<close>

theorem parse_section_header_offset_counterexample:
  "parse_section_header (BitString header_example) =
     Inr (header_example_decoded, (BitString header_example)\<lparr>pos := 104\<rparr>)
   \<and> pos ((BitString header_example)\<lparr>pos := 104\<rparr>) \<noteq> 97"
  by (simp add: header_example_run)

section \<open>The splice-time sub-parser\<close>

text \<open>
  Claim C9. Wherever \<^verbatim>\<open>__parse_splice_time\<close> is called and returns, the flag of the
  result is the bit under the cursor, and the bits consumed depend on that flag alone:
  40 (1 flag, 6 reserved, 33 of \<^verbatim>\<open>pts_time\<close>) when it is set, 8 (1 flag, 7 reserved)
  when it is clear. \<^verbatim>\<open>pts_time\<close> is present exactly when the flag is set, and is then
  the value of the 33 bits after the reserved ones.
\<close>

theorem parse_splice_time_width:
  assumes "parse_splice_time b = Inr (st, b')"
  shows "time_specified_flag st = bits b ! pos b
       \<and> pos b' = pos b + (if time_specified_flag st then 1 + 6 + 33 else 1 + 7)
       \<and> (pts_time st \<noteq> None \<longleftrightarrow> time_specified_flag st)
       \<and> (time_specified_flag st \<longrightarrow>
            pts_time st = Some (uint_of_bits (take 33 (drop (pos b + 1 + 6) (bits b)))))
       \<and> bits b' = bits b"
  using assms unfolding parse_splice_time_def
  by (auto simp: bind_Inr split: if_splits)

lemma splice_time_example_set:
  "parse_splice_time splice_time_example =
     Inr (\<lparr>time_specified_flag = True, pts_time = Some 12345\<rparr>, splice_time_example\<lparr>pos := 40\<rparr>)"
  by code_simp

lemma splice_time_example_clear:
  "parse_splice_time (splice_time_example\<lparr>pos := 40\<rparr>) =
     Inr (\<lparr>time_specified_flag = False, pts_time = None\<rparr>, splice_time_example\<lparr>pos := 48\<rparr>)"
  by code_simp

theorem parse_splice_time_width_witness:
  "parse_splice_time splice_time_example =
     Inr (\<lparr>time_specified_flag = True, pts_time = Some 12345\<rparr>, splice_time_example\<lparr>pos := 40\<rparr>)
   \<and> pos (splice_time_example\<lparr>pos := 40\<rparr>) = pos splice_time_example + 40
   \<and> parse_splice_time (splice_time_example\<lparr>pos := 40\<rparr>) =
     Inr (\<lparr>time_specified_flag = False, pts_time = None\<rparr>, splice_time_example\<lparr>pos := 48\<rparr>)
   \<and> pos (splice_time_example\<lparr>pos := 48\<rparr>) = pos (splice_time_example\<lparr>pos := 40\<rparr>) + 8"
  using parse_splice_time_width [OF splice_time_example_set]
    parse_splice_time_width [OF splice_time_example_clear]
    splice_time_example_set splice_time_example_clear
  by simp

section \<open>The splice-insert parser\<close>

lemma cancelled_insert_example_run:
  "parse cancelled_insert_example = Inr cancelled_insert_decoded"
  by code_simp

text \<open>
  Claim C1 (the code departs from it). When the 32 bits of the event id and the byte
  of the indicator can be read and \<^verbatim>\<open>splice_event_cancel_indicator\<close> is set,
  \<^verbatim>\<open>__parse_splice_insert\<close> reads nothing more: the cursor stops 40 bits after its
  start. But the value it returns is \<^verbatim>\<open>None\<close>, not the \<^verbatim>\<open>SCTE35_SpliceInsert\<close> it
  built: \<^verbatim>\<open>return ssi\<close> stands inside the branch of a command that is not cancelled.
\<close>

theorem parse_splice_insert_cancelled:
  assumes "pos b + 40 \<le> length (bits b)"
    and "bits b ! (pos b + 32)"
  shows "parse_splice_insert b = Inr (None, b\<lparr>pos := pos b + 40\<rparr>)"
  using assms
  by (simp add: parse_splice_insert_def exn_bind_def read_uint_def read_bool_def read_bits_def
        skip_def)

text \<open>
  On \<open>cancelled_insert_example\<close> the whole decode returns a section whose
  \<^verbatim>\<open>splice_command\<close> is \<^verbatim>\<open>None\<close>.
\<close>

theorem parse_splice_insert_cancelled_witness:
  "parse_splice_insert ((BitString cancelled_insert_example)\<lparr>pos := 112\<rparr>) =
     Inr (None, (BitString cancelled_insert_example)\<lparr>pos := 152\<rparr>)
   \<and> parse cancelled_insert_example = Inr cancelled_insert_decoded
   \<and> splice_command cancelled_insert_decoded = None"
proof -
  have "pos ((BitString cancelled_insert_example)\<lparr>pos := 112\<rparr>) + 40
          \<le> length (bits ((BitString cancelled_insert_example)\<lparr>pos := 112\<rparr>))"
    by code_simp
  moreover have "bits ((BitString cancelled_insert_example)\<lparr>pos := 112\<rparr>)
          ! (pos ((BitString cancelled_insert_example)\<lparr>pos := 112\<rparr>) + 32)"
    by code_simp
  ultimately show ?thesis
    using parse_splice_insert_cancelled [of "(BitString cancelled_insert_example)\<lparr>pos := 112\<rparr>"]
      cancelled_insert_example_run
    by (simp add: cancelled_insert_decoded_def)
qed




section \<open>The table id\<close>

lemma BitString_Cons:
  "BitString (x # xs) = \<lparr>bits = bits_of_byte x @ concat (map bits_of_byte xs), pos = 0\<rparr>"
  by (simp add: BitString_def)

lemma length_bits_of_byte: "length (bits_of_byte x) = 8"
  by (simp add: bits_of_byte_def)

text \<open>
  Claim C7. When the first byte of the buffer is not 0xFC, \<^verbatim>\<open>parse\<close> raises
  \<^verbatim>\<open>SCTE35_SpliceInfoSectionException\<close> with the message that names the byte, whatever
  follows it: the result is that of the buffer cut after its first byte, so nothing
  after the first byte is interpreted.
\<close>

theorem parse_invalid_table_id:
  assumes "x \<noteq> 0xFC"
  shows "parse (x # xs) =
           Inl (SCTE35_SpliceInfoSectionException (fmt_d (unat x) @ '' valid. Should be 0xfc''))
       \<and> parse (x # xs) = parse [x]"
proof -
  have ne: "unat x \<noteq> 252"
    using assms by (simp add: word_unat_eq_iff)
  have "parse (x # ys) =
           Inl (SCTE35_SpliceInfoSectionException (fmt_d (unat x) @ '' valid. Should be 0xfc''))"
    for ys
    using ne
    by (simp add: parse_def parse_bitarray_def parse_section_header_def BitString_Cons
          read_uint_def read_bits_def length_bits_of_byte uint_of_bits_bits_of_byte
          SCTE35_SpliceInfoSection_init_def)
  then show ?thesis by simp
qed

theorem parse_invalid_table_id_witness:
  "(0xFB :: 8 word) \<noteq> 0xFC
   \<and> parse [0xFB, 0x30, 0x11] =
       Inl (SCTE35_SpliceInfoSectionException ''251 valid. Should be 0xfc'')"
proof -
  have ne: "(0xFB :: 8 word) \<noteq> 0xFC"
    by simp
  have "fmt_d (unat (0xFB :: 8 word)) = ''251''"
    by code_simp
  with parse_invalid_table_id [OF ne, of "[0x30, 0x11]"] ne show ?thesis
    by simp
qed

section \<open>The dispatch on the command type\<close>








end
